theory Spec2Isabelle
  imports Complex_Main "HOL-Library.Finite_Map" "HOL-Library.Option_ord" "HOL-Library.Multiset"
begin

section \<open>Python values\<close>

text \<open>
  The values the models hold in an attribute's value, a column's default value and the
  metadata dictionaries: \<open>None\<close>, booleans, integers, floats and byte strings. A float
  is not-a-number, an infinity (\<open>FInf True\<close> the negative one) or a number, held as the
  real it denotes, so that \<open>0.0\<close> and \<open>-0.0\<close> are one value.
\<close>

datatype pyfloat = FNaN | FInf bool | FNum real

datatype pyval = PNone | PBool bool | PInt int | PFloat pyfloat | PStr string

text \<open>
  \<open>==\<close> on two floats and on an integer and a float: not-a-number is unequal to every
  value, itself included; an integer equals the float that denotes the same number.
\<close>

fun float_eq :: "pyfloat \<Rightarrow> pyfloat \<Rightarrow> bool" where
  "float_eq (FNum a) (FNum b) = (a = b)"
| "float_eq (FInf s) (FInf t) = (s = t)"
| "float_eq _ _ = False"

fun int_float_eq :: "int \<Rightarrow> pyfloat \<Rightarrow> bool" where
  "int_float_eq i (FNum r) = (of_int i = r)"
| "int_float_eq i _ = False"

text \<open>
  \<open>py_eq\<close> is Python's \<open>==\<close> on these values: \<open>bool\<close> is a subclass of \<open>int\<close>, so
  \<open>True == 1\<close> and \<open>False == 0\<close>, and the numbers compare by value across \<open>bool\<close>,
  \<open>int\<close> and \<open>float\<close>; values of otherwise different types are unequal. The model has
  values and no object identity: the members of lists, sets and dictionaries are compared
  with \<open>==\<close>, where Python first tests whether the two members are one object, which
  differs from \<open>==\<close> only on a not-a-number.
\<close>

fun py_eq :: "pyval \<Rightarrow> pyval \<Rightarrow> bool" where
  "py_eq PNone PNone = True"
| "py_eq (PBool a) (PBool b) = (a = b)"
| "py_eq (PInt a) (PInt b) = (a = b)"
| "py_eq (PBool a) (PInt b) = ((if a then 1 else 0) = b)"
| "py_eq (PInt a) (PBool b) = (a = (if b then 1 else 0))"
| "py_eq (PFloat a) (PFloat b) = float_eq a b"
| "py_eq (PInt a) (PFloat b) = int_float_eq a b"
| "py_eq (PFloat a) (PInt b) = int_float_eq b a"
| "py_eq (PBool a) (PFloat b) = int_float_eq (if a then 1 else 0) b"
| "py_eq (PFloat a) (PBool b) = int_float_eq (if b then 1 else 0) a"
| "py_eq (PStr a) (PStr b) = (a = b)"
| "py_eq _ _ = False"

text \<open>
  A dictionary with string keys (\<open>**metadata\<close>). Two dictionaries are \<open>==\<close> when they
  have the same keys and the values under each key are \<open>==\<close>.
\<close>

type_synonym pydict = "(string, pyval) fmap"

definition dict_eq :: "pydict \<Rightarrow> pydict \<Rightarrow> bool" where
  "dict_eq a b = fmrel py_eq a b"

text \<open>
  What a call raises. An \<open>assert\<close> statement carries no message: the traceback names the
  line of the failing statement in \<open>sql_entities.py\<close>, which is what \<open>AssertionError\<close>
  records here.
\<close>

datatype error = AssertionError nat | NotImplementedError string

definition py_assert :: "nat \<Rightarrow> bool \<Rightarrow> error + unit" where
  "py_assert line b = (if b then Inr () else Inl (AssertionError line))"

definition and_then :: "error + unit \<Rightarrow> error + unit \<Rightarrow> error + unit" where
  "and_then r k = (case r of Inl e \<Rightarrow> Inl e | Inr u \<Rightarrow> k)"

text \<open>
  \<open>for a, b in izip(xs, ys): a.assert_equal(b)\<close>: \<open>izip\<close> stops at the end of the
  shorter sequence, the loop at the first call that raises.
\<close>

fun for_izip :: "('a \<Rightarrow> 'a \<Rightarrow> error + unit) \<Rightarrow> 'a list \<Rightarrow> 'a list \<Rightarrow> error + unit" where
  "for_izip f (x # xs) (y # ys) = and_then (f x y) (for_izip f xs ys)"
| "for_izip f xs ys = Inr ()"

section \<open>SQLAttribute\<close>

record SQLAttribute =
  name :: string
  "value" :: pyval
  has_value :: bool

definition SQLAttribute_init :: "string \<Rightarrow> SQLAttribute" where
  "SQLAttribute_init n = \<lparr>SQLAttribute.name = n, value = PNone, has_value = False\<rparr>"

definition create_with_value :: "string \<Rightarrow> pyval \<Rightarrow> SQLAttribute" where
  "create_with_value n v =
     (SQLAttribute_init n)\<lparr>SQLAttribute.name := n, value := v, has_value := True\<rparr>"

text \<open>
  \<open>__eq__\<close>. Here and in the classes below, \<open>other\<close> has the type of \<open>self\<close>, so the
  \<open>isinstance\<close> test of the source holds.
\<close>

definition SQLAttribute_eq :: "SQLAttribute \<Rightarrow> SQLAttribute \<Rightarrow> bool" where
  "SQLAttribute_eq self other =
     (SQLAttribute.name self = SQLAttribute.name other \<and>
      py_eq (value self) (value other) \<and>
      has_value self = has_value other)"

text \<open>
  \<open>__hash__\<close> is \<open>hash((self.name, self.value, self.has_value))\<close>. The built-in
  \<open>hash\<close> of a tuple is a parameter: the tuple is passed as the list of its components.
\<close>

definition SQLAttribute_hash :: "(pyval list \<Rightarrow> int) \<Rightarrow> SQLAttribute \<Rightarrow> int" where
  "SQLAttribute_hash hash self =
     hash [PStr (SQLAttribute.name self), value self, PBool (has_value self)]"

definition SQLAttribute_assert_equal :: "SQLAttribute \<Rightarrow> SQLAttribute \<Rightarrow> error + unit" where
  "SQLAttribute_assert_equal self other =
     and_then (py_assert 125 (SQLAttribute.name self = SQLAttribute.name other))
    (and_then (py_assert 126 (py_eq (value self) (value other)))
              (py_assert 127 (has_value self = has_value other)))"

text \<open>
  A Python \<open>set\<close> of attributes is the list of its members in iteration order. Two sets
  are \<open>==\<close> when they have the same size and every member of the first is found in the
  second; a member is found by the \<open>__eq__\<close> of the stored member.
\<close>

definition set_eq :: "SQLAttribute list \<Rightarrow> SQLAttribute list \<Rightarrow> bool" where
  "set_eq xs ys =
     (length xs = length ys \<and> list_all (\<lambda>x. list_ex (\<lambda>y. SQLAttribute_eq y x) ys) xs)"

section \<open>SQLColumnDataType\<close>

text \<open>
  The class of a data type object: \<open>SQLColumnDataType\<close> itself or one of its concrete
  subclasses, which live outside this module and are named by a value of \<open>'c\<close>.
  \<open>isinstance(x, SQLColumnDataType)\<close> holds for an instance of the class and of every
  subclass. The methods below are those of \<open>SQLColumnDataType\<close>, which a subclass
  inherits; the one method a subclass is taken to override is \<open>_string_to_value\<close>.
\<close>

datatype 'c py_class = SQLColumnDataType_class | Subclass 'c

record 'c SQLColumnDataType =
  cls :: "'c py_class"
  attributes :: "SQLAttribute list"

fun isinstance_SQLColumnDataType :: "'c py_class \<Rightarrow> bool" where
  "isinstance_SQLColumnDataType SQLColumnDataType_class = True"
| "isinstance_SQLColumnDataType (Subclass c) = True"

definition SQLColumnDataType_eq :: "'c SQLColumnDataType \<Rightarrow> 'c SQLColumnDataType \<Rightarrow> bool" where
  "SQLColumnDataType_eq self other =
     (isinstance_SQLColumnDataType (cls other) \<and>
      set_eq (SQLColumnDataType.attributes self) (SQLColumnDataType.attributes other))"

text \<open>\<open>str.lower\<close> on a byte string: the letters A to Z move to a to z.\<close>

definition lower_char :: "char \<Rightarrow> char" where
  "lower_char c =
     (let n = (of_char c :: nat) in if 65 \<le> n \<and> n \<le> 90 then char_of (n + 32) else c)"

definition lower :: "string \<Rightarrow> string" where
  "lower s = map lower_char s"

definition is_null_string :: "string option \<Rightarrow> bool" where
  "is_null_string val_string =
     (case val_string of None \<Rightarrow> True | Some s \<Rightarrow> lower s = ''null'')"

text \<open>
  \<open>_string_to_value\<close> raises in the base class. A subclass overrides it; the overrides are
  the parameter \<open>ov\<close>, one conversion for each subclass.
\<close>

definition string_to_value ::
  "('c \<Rightarrow> string \<Rightarrow> error + pyval) \<Rightarrow> 'c SQLColumnDataType \<Rightarrow> string \<Rightarrow> error + pyval" where
  "string_to_value ov self val_string =
     (case cls self of
        SQLColumnDataType_class \<Rightarrow> Inl (NotImplementedError ''Must be implemented by subclasses'')
      | Subclass c \<Rightarrow> ov c val_string)"

definition to_value ::
  "('c \<Rightarrow> string \<Rightarrow> error + pyval) \<Rightarrow> 'c SQLColumnDataType \<Rightarrow> string option \<Rightarrow> error + pyval" where
  "to_value ov self val_string =
     (if is_null_string val_string then Inr PNone
      else string_to_value ov self (the val_string))"

text \<open>
  In \<open>to_value\<close> the string is read only where \<open>is_null_string\<close> is false, and it is
  true of \<open>None\<close>.
\<close>

section \<open>SQLColumn\<close>

text \<open>
  \<open>primary_key_order\<close> is \<open>None\<close> or an integer, \<open>default_value\<close> a Python value
  (\<open>None\<close> when the column has no default), \<open>attributes\<close> a set of attributes in
  its iteration order.
\<close>

record 'c SQLColumn =
  name :: string
  "type" :: "'c SQLColumnDataType"
  primary_key_order :: "int option"
  is_nullable :: bool
  default_value :: pyval
  doc :: "string option"
  attributes :: "SQLAttribute list"
  metadata :: pydict

definition SQLColumn_eq :: "'c SQLColumn \<Rightarrow> 'c SQLColumn \<Rightarrow> bool" where
  "SQLColumn_eq self other =
     (SQLColumn.name self = SQLColumn.name other \<and>
      SQLColumnDataType_eq (type self) (type other) \<and>
      primary_key_order self = primary_key_order other \<and>
      is_nullable self = is_nullable other \<and>
      py_eq (default_value self) (default_value other) \<and>
      set_eq (SQLColumn.attributes self) (SQLColumn.attributes other) \<and>
      dict_eq (SQLColumn.metadata self) (SQLColumn.metadata other))"

definition SQLColumn_assert_equal :: "'c SQLColumn \<Rightarrow> 'c SQLColumn \<Rightarrow> error + unit" where
  "SQLColumn_assert_equal self other =
     and_then (py_assert 83 (SQLColumn.name self = SQLColumn.name other))
    (and_then (py_assert 84 (SQLColumnDataType_eq (type self) (type other)))
    (and_then (py_assert 85 (primary_key_order self = primary_key_order other))
    (and_then (py_assert 86 (is_nullable self = is_nullable other))
    (and_then (py_assert 87 (py_eq (default_value self) (default_value other)))
    (and_then (for_izip SQLAttribute_assert_equal
                 (SQLColumn.attributes self) (SQLColumn.attributes other))
              (py_assert 93 (dict_eq (SQLColumn.metadata self) (SQLColumn.metadata other))))))))"

section \<open>SQLTable\<close>

record 'c SQLTable =
  name :: string
  columns :: "'c SQLColumn list"
  doc :: "string option"
  metadata :: pydict

text \<open>\<open>==\<close> on two lists: the same length, and \<open>==\<close> at every position.\<close>

definition SQLTable_eq :: "'c SQLTable \<Rightarrow> 'c SQLTable \<Rightarrow> bool" where
  "SQLTable_eq self other =
     (SQLTable.name self = SQLTable.name other \<and>
      list_all2 SQLColumn_eq (columns self) (columns other) \<and>
      dict_eq (SQLTable.metadata self) (SQLTable.metadata other))"

definition SQLTable_assert_equal :: "'c SQLTable \<Rightarrow> 'c SQLTable \<Rightarrow> error + unit" where
  "SQLTable_assert_equal self other =
     and_then (py_assert 32 (SQLTable.name self = SQLTable.name other))
    (and_then (for_izip SQLColumn_assert_equal (columns self) (columns other))
              (py_assert 35 (dict_eq (SQLTable.metadata self) (SQLTable.metadata other))))"

text \<open>
  The truth value of \<open>col.primary_key_order\<close>: \<open>None\<close> and \<open>0\<close> are false, every
  other integer is true.
\<close>

definition truthy :: "int option \<Rightarrow> bool" where
  "truthy v = (case v of None \<Rightarrow> False | Some n \<Rightarrow> n \<noteq> 0)"

text \<open>
  \<open>sorted(..., key=...)\<close> is a stable sort, as \<open>sort_key\<close> is; the keys are compared
  as \<open>int option\<close>, where \<open>None\<close> is below every integer, as in Python 2.
\<close>

definition primary_keys :: "'c SQLTable \<Rightarrow> 'c SQLColumn list" where
  "primary_keys self =
     sort_key (\<lambda>c. primary_key_order c)
       (filter (\<lambda>col. truthy (primary_key_order col)) (columns self))"

section \<open>AvroSchema\<close>

text \<open>
  The record of \<open>avro_schema.py\<close> with its columns as fields; \<open>id'\<close> is the column
  \<open>id\<close>. The status is one of the strings of \<open>AvroSchemaStatus\<close>. The topic model is
  outside this module: \<open>'t\<close> is the type of a topic, \<open>'d\<close> what its \<open>to_dict\<close>
  returns, and that method is the parameter \<open>topic_to_dict\<close>.
\<close>

definition READ_AND_WRITE :: string where "READ_AND_WRITE = ''RW''"
definition READ_ONLY :: string where "READ_ONLY = ''R''"
definition DISABLED :: string where "DISABLED = ''Disabled''"

record 't AvroSchema =
  id' :: int
  avro_schema :: string
  topic_id :: int
  base_schema_id :: "int option"
  status :: string
  created_at :: int
  updated_at :: int
  topic :: "'t option"

datatype 'd dictval = VNone | VInt int | VStr string | VDict 'd

definition to_dict :: "('t \<Rightarrow> 'd) \<Rightarrow> 't AvroSchema \<Rightarrow> (string, 'd dictval) fmap" where
  "to_dict topic_to_dict self =
     (let avro_schema_dict = fmap_of_list
        [(''schema_id'', VInt (id' self)),
         (''schema'', VStr (avro_schema self)),
         (''status'', VStr (status self)),
         (''topic'', case topic self of None \<Rightarrow> VNone | Some t \<Rightarrow> VDict (topic_to_dict t)),
         (''created_at'', VInt (created_at self)),
         (''updated_at'', VInt (updated_at self))]
      in case base_schema_id self of
           None \<Rightarrow> avro_schema_dict
         | Some b \<Rightarrow> fmupd ''base_schema_id'' (VInt b) avro_schema_dict)"

section \<open>Constructor calls\<close>

text \<open>
  The constructor calls used in the examples below, every argument that is not given at
  its default: \<open>SQLColumnDataType()\<close>, \<open>SQLColumn(column_name, column_type,
  primary_key_order)\<close> and \<open>SQLTable(table_name, columns)\<close>. A set built from no
  attributes is empty, and so is the dictionary of no keyword arguments.
\<close>

definition SQLColumnDataType_init :: "'c SQLColumnDataType" where
  "SQLColumnDataType_init = \<lparr>cls = SQLColumnDataType_class, attributes = []\<rparr>"

definition SQLColumn_init :: "string \<Rightarrow> 'c SQLColumnDataType \<Rightarrow> int option \<Rightarrow> 'c SQLColumn" where
  "SQLColumn_init column_name column_type pko =
     \<lparr>SQLColumn.name = column_name, type = column_type, primary_key_order = pko,
      is_nullable = True, default_value = PNone, doc = None, attributes = [],
      metadata = fmempty\<rparr>"

definition SQLTable_init :: "string \<Rightarrow> 'c SQLColumn list \<Rightarrow> 'c SQLTable" where
  "SQLTable_init table_name cols =
     \<lparr>SQLTable.name = table_name, columns = cols, doc = None, metadata = fmempty\<rparr>"

text \<open>
  The table of the specification's example: five columns whose \<open>primary_key_order\<close> is
  \<open>2\<close>, \<open>None\<close>, \<open>1\<close>, \<open>None\<close>, \<open>3\<close>.
\<close>

definition key_example :: "string SQLTable" where
  "key_example = SQLTable_init ''t''
     [SQLColumn_init ''a'' SQLColumnDataType_init (Some 2),
      SQLColumn_init ''b'' SQLColumnDataType_init None,
      SQLColumn_init ''c'' SQLColumnDataType_init (Some 1),
      SQLColumn_init ''d'' SQLColumnDataType_init None,
      SQLColumn_init ''e'' SQLColumnDataType_init (Some 3)]"

section \<open>Notions of the specification\<close>

text \<open>
  A string equals the literal \<open>null\<close> case-insensitively: it has four characters, an
  \<open>n\<close>, a \<open>u\<close> and two \<open>l\<close>, each in either case. This follows the words of the
  specification and is compared below with \<open>is_null_string\<close> of the source.
\<close>

definition case_insensitive_null :: "string \<Rightarrow> bool" where
  "case_insensitive_null s =
     (case s of
        [a, b, c, d] \<Rightarrow>
          (a = CHR ''n'' \<or> a = CHR ''N'') \<and> (b = CHR ''u'' \<or> b = CHR ''U'') \<and>
          (c = CHR ''l'' \<or> c = CHR ''L'') \<and> (d = CHR ''l'' \<or> d = CHR ''L'')
      | _ \<Rightarrow> False)"

text \<open>
  The values that are \<open>==\<close> to themselves are all but the float not-a-number. A set of
  attributes, a dictionary, a column and a table are free of it when none of the values
  their equality compares is one: the default value of a column, the values of its
  attributes and of the attributes of its type, and the values of the metadata.
\<close>

definition is_nan :: "pyval \<Rightarrow> bool" where
  "is_nan v = (v = PFloat FNaN)"

definition nan_free_attributes :: "SQLAttribute list \<Rightarrow> bool" where
  "nan_free_attributes xs = list_all (\<lambda>a. \<not> is_nan (value a)) xs"

definition nan_free_dict :: "pydict \<Rightarrow> bool" where
  "nan_free_dict m = fmpred (\<lambda>k v. \<not> is_nan v) m"

definition nan_free_column :: "'c SQLColumn \<Rightarrow> bool" where
  "nan_free_column c =
     (\<not> is_nan (default_value c) \<and>
      nan_free_attributes (SQLColumnDataType.attributes (type c)) \<and>
      nan_free_attributes (SQLColumn.attributes c) \<and>
      nan_free_dict (SQLColumn.metadata c))"

definition nan_free_table :: "'c SQLTable \<Rightarrow> bool" where
  "nan_free_table t = (list_all nan_free_column (columns t) \<and> nan_free_dict (SQLTable.metadata t))"

text \<open>
  The contract of the built-in \<open>hash\<close> on tuples: two tuples that are \<open>==\<close>, component
  by component, have the same hash.
\<close>

definition hash_respects_eq :: "(pyval list \<Rightarrow> int) \<Rightarrow> bool" where
  "hash_respects_eq hash = (\<forall>xs ys. list_all2 py_eq xs ys \<longrightarrow> hash xs = hash ys)"

text \<open>
  A hash that meets the contract, to stand for the built-in at a concrete input: \<open>True\<close>,
  \<open>1\<close> and \<open>1.0\<close>, which are \<open>==\<close>, hash alike.
\<close>

fun component_hash :: "pyval \<Rightarrow> int" where
  "component_hash PNone = 0"
| "component_hash (PBool b) = (if b then 1 else 0)"
| "component_hash (PInt i) = i"
| "component_hash (PFloat (FNum r)) = \<lfloor>r\<rfloor>"
| "component_hash (PFloat f) = 0"
| "component_hash (PStr s) = int (length s)"

definition tuple_hash :: "pyval list \<Rightarrow> int" where
  "tuple_hash xs = sum_list (map component_hash xs)"

section \<open>Equality is reflexive away from not-a-number\<close>

lemma float_eq_refl: "float_eq f f \<longleftrightarrow> f \<noteq> FNaN"
  by (cases f) simp_all

lemma py_eq_refl_iff: "py_eq v v \<longleftrightarrow> \<not> is_nan v"
  by (cases v) (simp_all add: is_nan_def float_eq_refl)

lemma py_eq_refl: "\<not> is_nan v \<Longrightarrow> py_eq v v"
  by (simp add: py_eq_refl_iff)

lemma SQLAttribute_eq_refl: "\<not> is_nan (value a) \<Longrightarrow> SQLAttribute_eq a a"
  by (simp add: SQLAttribute_eq_def py_eq_refl)

lemma set_eq_refl: "nan_free_attributes xs \<Longrightarrow> set_eq xs xs"
  unfolding set_eq_def nan_free_attributes_def list_all_iff list_ex_iff
  using SQLAttribute_eq_refl by blast

lemma SQLColumnDataType_eq_refl:
  "nan_free_attributes (SQLColumnDataType.attributes d) \<Longrightarrow> SQLColumnDataType_eq d d"
  by (cases "cls d") (simp_all add: SQLColumnDataType_eq_def set_eq_refl)

lemma dict_eq_refl: "nan_free_dict m \<Longrightarrow> dict_eq m m"
proof -
  assume "nan_free_dict m"
  then have "py_eq v v" if "fmlookup m k = Some v" for k v
    using that by (auto simp: nan_free_dict_def fmpred_iff py_eq_refl)
  then have "rel_option py_eq (fmlookup m k) (fmlookup m k)" for k
    by (cases "fmlookup m k") simp_all
  then show "dict_eq m m"
    by (simp add: dict_eq_def fmrel_iff)
qed

lemma SQLColumn_eq_refl: "nan_free_column c \<Longrightarrow> SQLColumn_eq c c"
  by (simp add: SQLColumn_eq_def nan_free_column_def SQLColumnDataType_eq_refl py_eq_refl
      set_eq_refl dict_eq_refl)

lemma columns_eq_refl: "list_all nan_free_column cs \<Longrightarrow> list_all2 SQLColumn_eq cs cs"
  by (simp add: list_all2_same list_all_iff SQLColumn_eq_refl)

section \<open>Fields of constructed values\<close>

lemma primary_key_order_init: "primary_key_order (SQLColumn_init n t k) = k"
  by (simp add: SQLColumn_init_def)

lemma name_init: "SQLColumn.name (SQLColumn_init n t k) = n"
  by (simp add: SQLColumn_init_def)

lemma columns_init: "columns (SQLTable_init n cs) = cs"
  by (simp add: SQLTable_init_def)

section \<open>Conversion of a raw string\<close>

lemma of_char_lower_char:
  "(of_char (lower_char c) :: nat) =
     (if 65 \<le> (of_char c :: nat) \<and> (of_char c :: nat) \<le> 90 then of_char c + 32 else of_char c)"
  by (simp add: lower_char_def Let_def)

lemma char_eq_code: "(c = d) = ((of_char c :: nat) = of_char d)"
  by simp

lemma lower_char_n: "lower_char c = CHR ''n'' \<longleftrightarrow> c = CHR ''n'' \<or> c = CHR ''N''"
  unfolding char_eq_code [of _ "CHR ''n''"] char_eq_code [of _ "CHR ''N''"] of_char_lower_char
  by auto

lemma lower_char_u: "lower_char c = CHR ''u'' \<longleftrightarrow> c = CHR ''u'' \<or> c = CHR ''U''"
  unfolding char_eq_code [of _ "CHR ''u''"] char_eq_code [of _ "CHR ''U''"] of_char_lower_char
  by auto

lemma lower_char_l: "lower_char c = CHR ''l'' \<longleftrightarrow> c = CHR ''l'' \<or> c = CHR ''L''"
  unfolding char_eq_code [of _ "CHR ''l''"] char_eq_code [of _ "CHR ''L''"] of_char_lower_char
  by auto

lemma lower_null_iff: "lower s = ''null'' \<longleftrightarrow> case_insensitive_null s"
  by (auto simp: lower_def case_insensitive_null_def lower_char_n lower_char_u lower_char_l
        split: list.splits)

text \<open>
  Claim C4. For every variant of the data type and every input, \<open>to_value\<close> returns
  \<open>None\<close> when the input is absent or equals the literal \<open>null\<close> case-insensitively, and
  for every other string it is the conversion of the variant, \<open>_string_to_value\<close>, raising
  what the conversion raises.
\<close>

theorem to_value_null_or_convert:
  "to_value ov self None = Inr PNone \<and>
   (case_insensitive_null s \<longrightarrow> to_value ov self (Some s) = Inr PNone) \<and>
   (\<not> case_insensitive_null s \<longrightarrow> to_value ov self (Some s) = string_to_value ov self s)"
  by (simp add: to_value_def is_null_string_def lower_null_iff)

theorem to_value_null_or_convert_witness:
  "case_insensitive_null ''NuLl'' \<and>
   to_value (\<lambda>c s. Inr (PStr s)) \<lparr>cls = Subclass ''MySQLChar'', attributes = []\<rparr> (Some ''NuLl'') = Inr PNone \<and>
   \<not> case_insensitive_null ''nil'' \<and>
   to_value (\<lambda>c s. Inr (PStr s)) \<lparr>cls = Subclass ''MySQLChar'', attributes = []\<rparr> (Some ''nil'') =
     Inr (PStr ''nil'')"
proof -
  have a: "case_insensitive_null ''NuLl''"
    by (simp add: case_insensitive_null_def)
  have b: "\<not> case_insensitive_null ''nil''"
    by (simp add: case_insensitive_null_def)
  have c: "string_to_value (\<lambda>c s. Inr (PStr s)) \<lparr>cls = Subclass ''MySQLChar'', attributes = []\<rparr> ''nil'' =
     Inr (PStr ''nil'')"
    by (simp add: string_to_value_def)
  from a b c
    to_value_null_or_convert [of "\<lambda>c s. Inr (PStr s)" "\<lparr>cls = Subclass ''MySQLChar'', attributes = []\<rparr>" "''NuLl''"]
    to_value_null_or_convert [of "\<lambda>c s. Inr (PStr s)" "\<lparr>cls = Subclass ''MySQLChar'', attributes = []\<rparr>" "''nil''"]
  show ?thesis by simp
qed

text \<open>
  Claim C5. On an instance of the base class itself the conversion raises
  \<open>NotImplementedError\<close> for every string, and so does \<open>to_value\<close> for every string that
  is not a case-insensitive \<open>null\<close>: no value is returned.
\<close>

theorem base_conversion_unsupported:
  "cls self = SQLColumnDataType_class \<longrightarrow>
     string_to_value ov self s = Inl (NotImplementedError ''Must be implemented by subclasses'') \<and>
     (\<not> case_insensitive_null s \<longrightarrow>
        to_value ov self (Some s) = Inl (NotImplementedError ''Must be implemented by subclasses''))"
  by (simp add: to_value_def is_null_string_def lower_null_iff string_to_value_def)

theorem base_conversion_unsupported_witness:
  "cls (SQLColumnDataType_init :: string SQLColumnDataType) = SQLColumnDataType_class \<and>
   \<not> case_insensitive_null ''42'' \<and>
   to_value (\<lambda>c s. Inr (PStr s)) (SQLColumnDataType_init :: string SQLColumnDataType) (Some ''42'') =
     Inl (NotImplementedError ''Must be implemented by subclasses'')"
proof -
  have a: "cls (SQLColumnDataType_init :: string SQLColumnDataType) = SQLColumnDataType_class"
    by (simp add: SQLColumnDataType_init_def)
  have b: "\<not> case_insensitive_null ''42''"
    by (simp add: case_insensitive_null_def)
  from a b base_conversion_unsupported
     [of "SQLColumnDataType_init :: string SQLColumnDataType" "\<lambda>c s. Inr (PStr s)" "''42''"]
  show ?thesis by blast
qed

section \<open>Primary keys\<close>

lemma truthy_iff: "truthy v \<longleftrightarrow> v \<noteq> None \<and> v \<noteq> Some 0"
  by (simp add: truthy_def split: option.splits)

lemma mset_primary_keys:
  "mset (primary_keys t) = mset (filter (\<lambda>c. truthy (primary_key_order c)) (columns t))"
  by (simp add: primary_keys_def)

lemma sorted_primary_keys: "sorted (map primary_key_order (primary_keys t))"
  by (simp add: primary_keys_def)

text \<open>
  Claim C3. In a table whose columns carry no \<open>primary_key_order\<close> or a positive one,
  the positive ones pairwise distinct, \<open>primary_keys\<close> returns exactly the columns whose
  \<open>primary_key_order\<close> is set, in strictly ascending order of it, and no column without
  one.
\<close>

theorem primary_keys_sorted_key_columns:
  assumes pos: "\<forall>c \<in> set (columns t). primary_key_order c = None \<or> (\<exists>n>0. primary_key_order c = Some n)"
      and dist: "distinct (map primary_key_order (filter (\<lambda>c. primary_key_order c \<noteq> None) (columns t)))"
    shows "mset (primary_keys t) = mset (filter (\<lambda>c. primary_key_order c \<noteq> None) (columns t)) \<and>
           sorted_wrt (<) (map primary_key_order (primary_keys t)) \<and>
           (\<forall>c \<in> set (primary_keys t). primary_key_order c \<noteq> None)"
proof -
  have flt: "filter (\<lambda>c. truthy (primary_key_order c)) (columns t) =
             filter (\<lambda>c. primary_key_order c \<noteq> None) (columns t)"
    using pos by (intro filter_cong) (auto simp: truthy_iff)
  have m: "mset (primary_keys t) = mset (filter (\<lambda>c. primary_key_order c \<noteq> None) (columns t))"
    by (simp add: mset_primary_keys flt)
  have "mset (map primary_key_order (primary_keys t)) =
        mset (map primary_key_order (filter (\<lambda>c. primary_key_order c \<noteq> None) (columns t)))"
    using m by (metis mset_map)
  then have "distinct (map primary_key_order (primary_keys t))"
    using dist by (metis mset_eq_imp_distinct_iff)
  then have s: "sorted_wrt (<) (map primary_key_order (primary_keys t))"
    using sorted_primary_keys [of t] by (simp add: strict_sorted_iff)
  have "set (primary_keys t) = set (filter (\<lambda>c. primary_key_order c \<noteq> None) (columns t))"
    using m by (metis mset_eq_setD)
  then have "\<forall>c \<in> set (primary_keys t). primary_key_order c \<noteq> None"
    by simp
  with m s show ?thesis by blast
qed

lemma key_example_columns:
  "columns key_example =
     [SQLColumn_init ''a'' SQLColumnDataType_init (Some 2),
      SQLColumn_init ''b'' SQLColumnDataType_init None,
      SQLColumn_init ''c'' SQLColumnDataType_init (Some 1),
      SQLColumn_init ''d'' SQLColumnDataType_init None,
      SQLColumn_init ''e'' SQLColumnDataType_init (Some 3)]"
  by (simp add: key_example_def SQLTable_init_def)

lemma primary_keys_key_example:
  "primary_keys key_example =
     [SQLColumn_init ''c'' SQLColumnDataType_init (Some 1),
      SQLColumn_init ''a'' SQLColumnDataType_init (Some 2),
      SQLColumn_init ''e'' SQLColumnDataType_init (Some 3)]"
  by (simp add: primary_keys_def key_example_columns truthy_def primary_key_order_init)

theorem primary_keys_sorted_key_columns_witness:
  "map primary_key_order (columns key_example) = [Some 2, None, Some 1, None, Some 3] \<and>
   mset (primary_keys key_example) =
      mset (filter (\<lambda>c. primary_key_order c \<noteq> None) (columns key_example)) \<and>
   sorted_wrt (<) (map primary_key_order (primary_keys key_example)) \<and>
   list_all (\<lambda>c. primary_key_order c \<noteq> None) (primary_keys key_example) \<and>
   map SQLColumn.name (primary_keys key_example) = [''c'', ''a'', ''e'']"
proof -
  have h1: "\<forall>c \<in> set (columns key_example).
      primary_key_order c = None \<or> (\<exists>n>0. primary_key_order c = Some n)"
    by (simp add: key_example_columns primary_key_order_init)
  have h2: "distinct (map primary_key_order
      (filter (\<lambda>c. primary_key_order c \<noteq> None) (columns key_example)))"
    by (simp add: key_example_columns primary_key_order_init)
  have k: "map primary_key_order (columns key_example) = [Some 2, None, Some 1, None, Some 3]"
    by (simp add: key_example_columns primary_key_order_init)
  have v: "map SQLColumn.name (primary_keys key_example) = [''c'', ''a'', ''e'']"
    by (simp add: primary_keys_key_example name_init)
  from primary_keys_sorted_key_columns [OF h1 h2] k v show ?thesis
    by (simp add: list_all_iff)
qed

text \<open>
  Claim C9. \<open>primary_keys\<close> filters on the truth value of \<open>primary_key_order\<close>: its
  members are the columns whose order is neither \<open>None\<close> nor \<open>0\<close>, and a table in which
  every order \<open>0\<close> is replaced by \<open>None\<close> has the same primary keys.
\<close>

theorem primary_keys_skip_falsy:
  "set (primary_keys t) =
     {c \<in> set (columns t). primary_key_order c \<noteq> None \<and> primary_key_order c \<noteq> Some 0} \<and>
   primary_keys (t\<lparr>columns := map (\<lambda>c. if primary_key_order c = Some 0
                                        then c\<lparr>primary_key_order := None\<rparr> else c) (columns t)\<rparr>) =
   primary_keys t"
proof
  have "set (primary_keys t) = set (filter (\<lambda>c. truthy (primary_key_order c)) (columns t))"
    using mset_primary_keys [of t] by (metis mset_eq_setD)
  then show "set (primary_keys t) =
     {c \<in> set (columns t). primary_key_order c \<noteq> None \<and> primary_key_order c \<noteq> Some 0}"
    by (auto simp: truthy_iff)
next
  have "filter (\<lambda>col. truthy (primary_key_order col))
          (map (\<lambda>c. if primary_key_order c = Some 0 then c\<lparr>primary_key_order := None\<rparr> else c) cs) =
        filter (\<lambda>col. truthy (primary_key_order col)) cs" for cs :: "'a SQLColumn list"
    by (induction cs) (auto simp: truthy_iff)
  then show "primary_keys (t\<lparr>columns := map (\<lambda>c. if primary_key_order c = Some 0
                                        then c\<lparr>primary_key_order := None\<rparr> else c) (columns t)\<rparr>) =
   primary_keys t"
    by (simp add: primary_keys_def)
qed

theorem primary_keys_skip_falsy_witness:
  "SQLColumn_init ''a'' (SQLColumnDataType_init :: string SQLColumnDataType) (Some 0) \<in>
     set (columns (SQLTable_init ''t''
       [SQLColumn_init ''a'' SQLColumnDataType_init (Some 0),
        SQLColumn_init ''b'' SQLColumnDataType_init (Some 1)])) \<and>
   SQLColumn_init ''a'' (SQLColumnDataType_init :: string SQLColumnDataType) (Some 0) \<notin>
     set (primary_keys (SQLTable_init ''t''
       [SQLColumn_init ''a'' SQLColumnDataType_init (Some 0),
        SQLColumn_init ''b'' SQLColumnDataType_init (Some 1)])) \<and>
   SQLColumn_init ''b'' (SQLColumnDataType_init :: string SQLColumnDataType) (Some 1) \<in>
     set (primary_keys (SQLTable_init ''t''
       [SQLColumn_init ''a'' SQLColumnDataType_init (Some 0),
        SQLColumn_init ''b'' SQLColumnDataType_init (Some 1)]))"
proof -
  have cols: "columns (SQLTable_init ''t''
       [SQLColumn_init ''a'' (SQLColumnDataType_init :: string SQLColumnDataType) (Some 0),
        SQLColumn_init ''b'' SQLColumnDataType_init (Some 1)]) =
       [SQLColumn_init ''a'' SQLColumnDataType_init (Some 0),
        SQLColumn_init ''b'' SQLColumnDataType_init (Some 1)]"
    by (simp add: SQLTable_init_def)
  from primary_keys_skip_falsy [of "SQLTable_init ''t''
       [SQLColumn_init ''a'' (SQLColumnDataType_init :: string SQLColumnDataType) (Some 0),
        SQLColumn_init ''b'' SQLColumnDataType_init (Some 1)]"]
  show ?thesis
    unfolding cols by (simp add: primary_key_order_init)
qed

section \<open>Equality of tables and columns\<close>

lemma SQLColumn_init_doc_eq:
  "SQLColumn_eq ((SQLColumn_init n SQLColumnDataType_init k)\<lparr>SQLColumn.doc := d\<rparr>)
                ((SQLColumn_init n SQLColumnDataType_init k)\<lparr>SQLColumn.doc := e\<rparr>)"
  by (simp add: SQLColumn_eq_def SQLColumn_init_def SQLColumnDataType_eq_def
      SQLColumnDataType_init_def set_eq_def dict_eq_def)

text \<open>
  Claim C7, as stated, fails: a table whose two columns differ only in \<open>doc\<close> holds the
  same columns as the table with the two swapped, in a different order, and is equal to it,
  since column equality does not read \<open>doc\<close>.
\<close>

theorem SQLTable_eq_swapped_counterexample:
  "mset (columns (SQLTable_init ''t''
      [(SQLColumn_init ''a'' (SQLColumnDataType_init :: string SQLColumnDataType) None)
         \<lparr>SQLColumn.doc := Some ''old''\<rparr>,
       (SQLColumn_init ''a'' SQLColumnDataType_init None)\<lparr>SQLColumn.doc := Some ''new''\<rparr>])) =
   mset (columns (SQLTable_init ''t''
      [(SQLColumn_init ''a'' (SQLColumnDataType_init :: string SQLColumnDataType) None)
         \<lparr>SQLColumn.doc := Some ''new''\<rparr>,
       (SQLColumn_init ''a'' SQLColumnDataType_init None)\<lparr>SQLColumn.doc := Some ''old''\<rparr>])) \<and>
   columns (SQLTable_init ''t''
      [(SQLColumn_init ''a'' (SQLColumnDataType_init :: string SQLColumnDataType) None)
         \<lparr>SQLColumn.doc := Some ''old''\<rparr>,
       (SQLColumn_init ''a'' SQLColumnDataType_init None)\<lparr>SQLColumn.doc := Some ''new''\<rparr>]) \<noteq>
   columns (SQLTable_init ''t''
      [(SQLColumn_init ''a'' (SQLColumnDataType_init :: string SQLColumnDataType) None)
         \<lparr>SQLColumn.doc := Some ''new''\<rparr>,
       (SQLColumn_init ''a'' SQLColumnDataType_init None)\<lparr>SQLColumn.doc := Some ''old''\<rparr>]) \<and>
   SQLTable_eq
     (SQLTable_init ''t''
      [(SQLColumn_init ''a'' (SQLColumnDataType_init :: string SQLColumnDataType) None)
         \<lparr>SQLColumn.doc := Some ''old''\<rparr>,
       (SQLColumn_init ''a'' SQLColumnDataType_init None)\<lparr>SQLColumn.doc := Some ''new''\<rparr>])
     (SQLTable_init ''t''
      [(SQLColumn_init ''a'' (SQLColumnDataType_init :: string SQLColumnDataType) None)
         \<lparr>SQLColumn.doc := Some ''new''\<rparr>,
       (SQLColumn_init ''a'' SQLColumnDataType_init None)\<lparr>SQLColumn.doc := Some ''old''\<rparr>])"
proof -
  let ?c = "SQLColumn_init ''a'' (SQLColumnDataType_init :: string SQLColumnDataType) None"
  let ?old = "?c\<lparr>SQLColumn.doc := Some ''old''\<rparr>"
  let ?new = "?c\<lparr>SQLColumn.doc := Some ''new''\<rparr>"
  have ne: "?old \<noteq> ?new"
    by (simp add: SQLColumn_init_def)
  have same: "mset (columns (SQLTable_init ''t'' [?old, ?new])) =
              mset (columns (SQLTable_init ''t'' [?new, ?old]))"
    by (simp add: columns_init)
  have order: "columns (SQLTable_init ''t'' [?old, ?new]) \<noteq>
               columns (SQLTable_init ''t'' [?new, ?old])"
    using ne by (simp add: columns_init)
  have "list_all2 SQLColumn_eq [?old, ?new] [?new, ?old]"
    by (simp add: SQLColumn_init_doc_eq)
  then have eq: "SQLTable_eq (SQLTable_init ''t'' [?old, ?new]) (SQLTable_init ''t'' [?new, ?old])"
    by (simp add: SQLTable_eq_def SQLTable_init_def dict_eq_def)
  from same order eq show ?thesis by blast
qed

text \<open>
  Claim C7, amended. Table equality compares the columns position by position. Two tables
  that hold the same columns in a different order are not equal, provided the columns of
  the table are told apart by column equality: no two different columns of it are \<open>==\<close>,
  as when the names of its columns are pairwise distinct.
\<close>

theorem SQLTable_eq_by_position:
  assumes same: "mset (columns t1) = mset (columns t2)"
      and order: "columns t1 \<noteq> columns t2"
      and ident: "\<forall>a \<in> set (columns t1). \<forall>b \<in> set (columns t1). a \<noteq> b \<longrightarrow> \<not> SQLColumn_eq a b"
    shows "\<not> SQLTable_eq t1 t2"
proof
  assume "SQLTable_eq t1 t2"
  then have all2: "list_all2 SQLColumn_eq (columns t1) (columns t2)"
    by (simp add: SQLTable_eq_def)
  then have len: "length (columns t1) = length (columns t2)"
    by (rule list_all2_lengthD)
  with order obtain i where i: "i < length (columns t1)" "columns t1 ! i \<noteq> columns t2 ! i"
    by (auto simp: list_eq_iff_nth_eq)
  have seteq: "set (columns t1) = set (columns t2)"
    using same by (rule mset_eq_setD)
  have a: "columns t1 ! i \<in> set (columns t1)"
    using i by simp
  have "columns t2 ! i \<in> set (columns t2)"
    using i len by simp
  then have b: "columns t2 ! i \<in> set (columns t1)"
    using seteq by simp
  from a b ident i have "\<not> SQLColumn_eq (columns t1 ! i) (columns t2 ! i)"
    by blast
  moreover have "SQLColumn_eq (columns t1 ! i) (columns t2 ! i)"
    using all2 i by (simp add: list_all2_nthD)
  ultimately show False by contradiction
qed

lemma SQLColumn_init_neq:
  "n \<noteq> m \<Longrightarrow> SQLColumn_init n t k \<noteq> SQLColumn_init m t' k'"
  by (simp add: SQLColumn_init_def)

lemma SQLColumn_init_not_eq:
  "n \<noteq> m \<Longrightarrow> \<not> SQLColumn_eq (SQLColumn_init n t k) (SQLColumn_init m t' k')"
  by (simp add: SQLColumn_eq_def name_init)

theorem SQLTable_eq_by_position_witness:
  "mset (columns (SQLTable_init ''t''
      [SQLColumn_init ''a'' (SQLColumnDataType_init :: string SQLColumnDataType) None,
       SQLColumn_init ''b'' SQLColumnDataType_init None])) =
   mset (columns (SQLTable_init ''t''
      (rev [SQLColumn_init ''a'' (SQLColumnDataType_init :: string SQLColumnDataType) None,
            SQLColumn_init ''b'' SQLColumnDataType_init None]))) \<and>
   \<not> SQLTable_eq
     (SQLTable_init ''t''
      [SQLColumn_init ''a'' (SQLColumnDataType_init :: string SQLColumnDataType) None,
       SQLColumn_init ''b'' SQLColumnDataType_init None])
     (SQLTable_init ''t''
      (rev [SQLColumn_init ''a'' (SQLColumnDataType_init :: string SQLColumnDataType) None,
            SQLColumn_init ''b'' SQLColumnDataType_init None]))"
proof -
  let ?a = "SQLColumn_init ''a'' (SQLColumnDataType_init :: string SQLColumnDataType) None"
  let ?b = "SQLColumn_init ''b'' (SQLColumnDataType_init :: string SQLColumnDataType) None"
  have ab: "?a \<noteq> ?b" "?b \<noteq> ?a"
    by (simp_all add: SQLColumn_init_neq)
  have nab: "\<not> SQLColumn_eq ?a ?b" "\<not> SQLColumn_eq ?b ?a"
    by (simp_all add: SQLColumn_init_not_eq)
  have h1: "mset (columns (SQLTable_init ''t'' [?a, ?b])) =
            mset (columns (SQLTable_init ''t'' (rev [?a, ?b])))"
    by (simp add: columns_init)
  have h2: "columns (SQLTable_init ''t'' [?a, ?b]) \<noteq> columns (SQLTable_init ''t'' (rev [?a, ?b]))"
    using ab by (simp add: columns_init)
  have h3: "\<forall>x \<in> set (columns (SQLTable_init ''t'' [?a, ?b])).
            \<forall>y \<in> set (columns (SQLTable_init ''t'' [?a, ?b])). x \<noteq> y \<longrightarrow> \<not> SQLColumn_eq x y"
    using nab by (simp add: columns_init)
  from SQLTable_eq_by_position [OF h1 h2 h3] h1 show ?thesis
    by blast
qed

text \<open>
  Claim C6, as stated, fails: a column whose default value is the float not-a-number and
  the same column with another \<open>doc\<close> agree on every compared field and are not equal,
  since \<open>self.default_value == other.default_value\<close> is false.
\<close>

theorem eq_agreeing_fields_counterexample:
  "SQLColumn.name ((SQLColumn_init ''a'' (SQLColumnDataType_init :: string SQLColumnDataType) None)
       \<lparr>default_value := PFloat FNaN\<rparr>) =
   SQLColumn.name ((SQLColumn_init ''a'' (SQLColumnDataType_init :: string SQLColumnDataType) None)
       \<lparr>default_value := PFloat FNaN, SQLColumn.doc := Some ''a ratio''\<rparr>) \<and>
   type ((SQLColumn_init ''a'' (SQLColumnDataType_init :: string SQLColumnDataType) None)
       \<lparr>default_value := PFloat FNaN\<rparr>) =
   type ((SQLColumn_init ''a'' (SQLColumnDataType_init :: string SQLColumnDataType) None)
       \<lparr>default_value := PFloat FNaN, SQLColumn.doc := Some ''a ratio''\<rparr>) \<and>
   primary_key_order ((SQLColumn_init ''a'' (SQLColumnDataType_init :: string SQLColumnDataType) None)
       \<lparr>default_value := PFloat FNaN\<rparr>) =
   primary_key_order ((SQLColumn_init ''a'' (SQLColumnDataType_init :: string SQLColumnDataType) None)
       \<lparr>default_value := PFloat FNaN, SQLColumn.doc := Some ''a ratio''\<rparr>) \<and>
   is_nullable ((SQLColumn_init ''a'' (SQLColumnDataType_init :: string SQLColumnDataType) None)
       \<lparr>default_value := PFloat FNaN\<rparr>) =
   is_nullable ((SQLColumn_init ''a'' (SQLColumnDataType_init :: string SQLColumnDataType) None)
       \<lparr>default_value := PFloat FNaN, SQLColumn.doc := Some ''a ratio''\<rparr>) \<and>
   default_value ((SQLColumn_init ''a'' (SQLColumnDataType_init :: string SQLColumnDataType) None)
       \<lparr>default_value := PFloat FNaN\<rparr>) =
   default_value ((SQLColumn_init ''a'' (SQLColumnDataType_init :: string SQLColumnDataType) None)
       \<lparr>default_value := PFloat FNaN, SQLColumn.doc := Some ''a ratio''\<rparr>) \<and>
   SQLColumn.attributes ((SQLColumn_init ''a'' (SQLColumnDataType_init :: string SQLColumnDataType) None)
       \<lparr>default_value := PFloat FNaN\<rparr>) =
   SQLColumn.attributes ((SQLColumn_init ''a'' (SQLColumnDataType_init :: string SQLColumnDataType) None)
       \<lparr>default_value := PFloat FNaN, SQLColumn.doc := Some ''a ratio''\<rparr>) \<and>
   SQLColumn.metadata ((SQLColumn_init ''a'' (SQLColumnDataType_init :: string SQLColumnDataType) None)
       \<lparr>default_value := PFloat FNaN\<rparr>) =
   SQLColumn.metadata ((SQLColumn_init ''a'' (SQLColumnDataType_init :: string SQLColumnDataType) None)
       \<lparr>default_value := PFloat FNaN, SQLColumn.doc := Some ''a ratio''\<rparr>) \<and>
   \<not> SQLColumn_eq
     ((SQLColumn_init ''a'' (SQLColumnDataType_init :: string SQLColumnDataType) None)
       \<lparr>default_value := PFloat FNaN\<rparr>)
     ((SQLColumn_init ''a'' (SQLColumnDataType_init :: string SQLColumnDataType) None)
       \<lparr>default_value := PFloat FNaN, SQLColumn.doc := Some ''a ratio''\<rparr>)"
  by (simp add: SQLColumn_eq_def)

text \<open>
  Claim C6, amended. Column equality reads the name, the type, the primary key order, the
  nullability, the default value, the attributes and the metadata, and table equality the
  name, the columns and the metadata; neither reads \<open>doc\<close>, so changing \<open>doc\<close> on either
  side never changes the result. Two columns, or two tables, that agree on those fields
  are equal whatever their \<open>doc\<close>, provided none of the values that equality compares
  (default values, attribute values, metadata values) is the float not-a-number.
\<close>

theorem eq_ignores_doc:
  "(nan_free_column c1 \<and>
    SQLColumn.name c1 = SQLColumn.name c2 \<and> type c1 = type c2 \<and>
    primary_key_order c1 = primary_key_order c2 \<and> is_nullable c1 = is_nullable c2 \<and>
    default_value c1 = default_value c2 \<and> SQLColumn.attributes c1 = SQLColumn.attributes c2 \<and>
    SQLColumn.metadata c1 = SQLColumn.metadata c2 \<longrightarrow> SQLColumn_eq c1 c2) \<and>
   (nan_free_table t1 \<and>
    SQLTable.name t1 = SQLTable.name t2 \<and> columns t1 = columns t2 \<and>
    SQLTable.metadata t1 = SQLTable.metadata t2 \<longrightarrow> SQLTable_eq t1 t2) \<and>
   SQLColumn_eq (c1\<lparr>SQLColumn.doc := d1\<rparr>) (c2\<lparr>SQLColumn.doc := d2\<rparr>) = SQLColumn_eq c1 c2 \<and>
   SQLTable_eq (t1\<lparr>SQLTable.doc := d1\<rparr>) (t2\<lparr>SQLTable.doc := d2\<rparr>) = SQLTable_eq t1 t2 \<and>
   (SQLColumn_eq c1 c2 \<longleftrightarrow>
      SQLColumn.name c1 = SQLColumn.name c2 \<and> SQLColumnDataType_eq (type c1) (type c2) \<and>
      primary_key_order c1 = primary_key_order c2 \<and> is_nullable c1 = is_nullable c2 \<and>
      py_eq (default_value c1) (default_value c2) \<and>
      set_eq (SQLColumn.attributes c1) (SQLColumn.attributes c2) \<and>
      dict_eq (SQLColumn.metadata c1) (SQLColumn.metadata c2)) \<and>
   (SQLTable_eq t1 t2 \<longleftrightarrow>
      SQLTable.name t1 = SQLTable.name t2 \<and> list_all2 SQLColumn_eq (columns t1) (columns t2) \<and>
      dict_eq (SQLTable.metadata t1) (SQLTable.metadata t2))"
proof (intro conjI impI)
  assume a: "nan_free_column c1 \<and>
    SQLColumn.name c1 = SQLColumn.name c2 \<and> type c1 = type c2 \<and>
    primary_key_order c1 = primary_key_order c2 \<and> is_nullable c1 = is_nullable c2 \<and>
    default_value c1 = default_value c2 \<and> SQLColumn.attributes c1 = SQLColumn.attributes c2 \<and>
    SQLColumn.metadata c1 = SQLColumn.metadata c2"
  then have "SQLColumn_eq c1 c1"
    by (simp add: SQLColumn_eq_refl)
  with a show "SQLColumn_eq c1 c2"
    by (simp add: SQLColumn_eq_def)
next
  assume a: "nan_free_table t1 \<and>
    SQLTable.name t1 = SQLTable.name t2 \<and> columns t1 = columns t2 \<and>
    SQLTable.metadata t1 = SQLTable.metadata t2"
  then have "nan_free_table t1" ..
  then have nf: "list_all nan_free_column (columns t1)" "nan_free_dict (SQLTable.metadata t1)"
    by (simp_all add: nan_free_table_def)
  have "list_all2 SQLColumn_eq (columns t1) (columns t1)"
    by (rule columns_eq_refl [OF nf(1)])
  moreover have "dict_eq (SQLTable.metadata t1) (SQLTable.metadata t1)"
    by (rule dict_eq_refl [OF nf(2)])
  ultimately show "SQLTable_eq t1 t2"
    using a by (simp add: SQLTable_eq_def)
next
  show "SQLColumn_eq (c1\<lparr>SQLColumn.doc := d1\<rparr>) (c2\<lparr>SQLColumn.doc := d2\<rparr>) = SQLColumn_eq c1 c2"
    by (simp add: SQLColumn_eq_def)
next
  show "SQLTable_eq (t1\<lparr>SQLTable.doc := d1\<rparr>) (t2\<lparr>SQLTable.doc := d2\<rparr>) = SQLTable_eq t1 t2"
    by (simp add: SQLTable_eq_def)
next
  show "SQLColumn_eq c1 c2 \<longleftrightarrow>
      SQLColumn.name c1 = SQLColumn.name c2 \<and> SQLColumnDataType_eq (type c1) (type c2) \<and>
      primary_key_order c1 = primary_key_order c2 \<and> is_nullable c1 = is_nullable c2 \<and>
      py_eq (default_value c1) (default_value c2) \<and>
      set_eq (SQLColumn.attributes c1) (SQLColumn.attributes c2) \<and>
      dict_eq (SQLColumn.metadata c1) (SQLColumn.metadata c2)"
    by (simp add: SQLColumn_eq_def)
next
  show "SQLTable_eq t1 t2 \<longleftrightarrow>
      SQLTable.name t1 = SQLTable.name t2 \<and> list_all2 SQLColumn_eq (columns t1) (columns t2) \<and>
      dict_eq (SQLTable.metadata t1) (SQLTable.metadata t2)"
    by (simp add: SQLTable_eq_def)
qed

lemma nan_free_column_init: "nan_free_column (SQLColumn_init n SQLColumnDataType_init k)"
  by (simp add: nan_free_column_def SQLColumn_init_def SQLColumnDataType_init_def is_nan_def
      nan_free_attributes_def nan_free_dict_def)

theorem eq_ignores_doc_witness:
  "nan_free_column ((SQLColumn_init ''a'' (SQLColumnDataType_init :: string SQLColumnDataType) (Some 1))
       \<lparr>default_value := PFloat (FNum 0), SQLColumn.doc := Some ''the key''\<rparr>) \<and>
   SQLColumn.doc ((SQLColumn_init ''a'' (SQLColumnDataType_init :: string SQLColumnDataType) (Some 1))
       \<lparr>default_value := PFloat (FNum 0), SQLColumn.doc := Some ''the key''\<rparr>) \<noteq>
   SQLColumn.doc ((SQLColumn_init ''a'' (SQLColumnDataType_init :: string SQLColumnDataType) (Some 1))
       \<lparr>default_value := PFloat (FNum 0)\<rparr>) \<and>
   SQLColumn_eq
     ((SQLColumn_init ''a'' (SQLColumnDataType_init :: string SQLColumnDataType) (Some 1))
       \<lparr>default_value := PFloat (FNum 0), SQLColumn.doc := Some ''the key''\<rparr>)
     ((SQLColumn_init ''a'' SQLColumnDataType_init (Some 1))\<lparr>default_value := PFloat (FNum 0)\<rparr>) \<and>
   nan_free_table
     ((SQLTable_init ''t'' [SQLColumn_init ''a'' (SQLColumnDataType_init :: string SQLColumnDataType) (Some 1)])
       \<lparr>SQLTable.doc := Some ''a table''\<rparr>) \<and>
   SQLTable_eq
     ((SQLTable_init ''t'' [SQLColumn_init ''a'' (SQLColumnDataType_init :: string SQLColumnDataType) (Some 1)])
       \<lparr>SQLTable.doc := Some ''a table''\<rparr>)
     (SQLTable_init ''t'' [SQLColumn_init ''a'' SQLColumnDataType_init (Some 1)])"
proof -
  let ?c = "SQLColumn_init ''a'' (SQLColumnDataType_init :: string SQLColumnDataType) (Some 1)"
  let ?z = "?c\<lparr>default_value := PFloat (FNum 0)\<rparr>"
  let ?zd = "?c\<lparr>default_value := PFloat (FNum 0), SQLColumn.doc := Some ''the key''\<rparr>"
  let ?t = "SQLTable_init ''t'' [?c]"
  let ?td = "?t\<lparr>SQLTable.doc := Some ''a table''\<rparr>"
  have nc: "nan_free_column ?zd"
    by (simp add: nan_free_column_def SQLColumn_init_def SQLColumnDataType_init_def is_nan_def
        nan_free_attributes_def nan_free_dict_def)
  have nt: "nan_free_table ?td"
    by (simp add: nan_free_table_def SQLTable_init_def nan_free_dict_def nan_free_column_init)
  have d: "SQLColumn.doc ?zd \<noteq> SQLColumn.doc ?z"
    by (simp add: SQLColumn_init_def)
  from nc nt eq_ignores_doc [of ?zd ?z ?td ?t]
  have "SQLColumn_eq ?zd ?z" and "SQLTable_eq ?td ?t"
    by simp_all
  with nc nt d show ?thesis by blast
qed

section \<open>Serialising a schema record\<close>

text \<open>
  Claim C10. The dictionary \<open>to_dict\<close> returns has the keys \<open>schema_id\<close>, \<open>schema\<close>,
  \<open>status\<close>, \<open>topic\<close>, \<open>created_at\<close> and \<open>updated_at\<close>, and the key
  \<open>base_schema_id\<close> exactly when the record's \<open>base_schema_id\<close> is not \<open>None\<close>; no
  other key. Under \<open>topic\<close> it holds \<open>None\<close> when the record has no topic.
\<close>

theorem to_dict_keys:
  "fmdom (to_dict topic_to_dict self) =
     {|''schema_id'', ''schema'', ''status'', ''topic'', ''created_at'', ''updated_at''|}
     |\<union>| (if base_schema_id self = None then {||} else {|''base_schema_id''|}) \<and>
   (topic self = None \<longrightarrow> fmlookup (to_dict topic_to_dict self) ''topic'' = Some VNone) \<and>
   (''base_schema_id'' |\<in>| fmdom (to_dict topic_to_dict self) \<longleftrightarrow> base_schema_id self \<noteq> None)"
  by (auto simp: to_dict_def Let_def split: option.splits)

theorem to_dict_keys_witness:
  "topic \<lparr>id' = 7, avro_schema = ''{}'', topic_id = 3, base_schema_id = None,
          status = READ_AND_WRITE, created_at = 0, updated_at = 0,
          topic = (None :: string option)\<rparr> = None \<and>
   fmlookup (to_dict (\<lambda>t. t)
       \<lparr>id' = 7, avro_schema = ''{}'', topic_id = 3, base_schema_id = None,
        status = READ_AND_WRITE, created_at = 0, updated_at = 0,
        topic = (None :: string option)\<rparr>) ''topic'' = Some VNone \<and>
   ''base_schema_id'' |\<notin>| fmdom (to_dict (\<lambda>t. t)
       \<lparr>id' = 7, avro_schema = ''{}'', topic_id = 3, base_schema_id = None,
        status = READ_AND_WRITE, created_at = 0, updated_at = 0,
        topic = (None :: string option)\<rparr>) \<and>
   ''base_schema_id'' |\<in>| fmdom (to_dict (\<lambda>t. t)
       \<lparr>id' = 8, avro_schema = ''{}'', topic_id = 3, base_schema_id = Some 7,
        status = READ_ONLY, created_at = 0, updated_at = 0,
        topic = Some ''topic''\<rparr>)"
proof -
  let ?s = "\<lparr>id' = 7, avro_schema = ''{}'', topic_id = 3, base_schema_id = None,
        status = READ_AND_WRITE, created_at = 0, updated_at = 0,
        topic = (None :: string option)\<rparr>"
  let ?r = "\<lparr>id' = 8, avro_schema = ''{}'', topic_id = 3, base_schema_id = Some 7,
        status = READ_ONLY, created_at = 0, updated_at = 0,
        topic = Some ''topic''\<rparr>"
  have a: "topic ?s = None" "base_schema_id ?s = None" "base_schema_id ?r \<noteq> None"
    by simp_all
  from a to_dict_keys [of "\<lambda>t. t" ?s] to_dict_keys [of "\<lambda>t. t" ?r]
  show ?thesis by blast
qed

section \<open>Equality and hash of attributes\<close>

lemma float_hash_eq: "float_eq f g \<Longrightarrow> component_hash (PFloat f) = component_hash (PFloat g)"
  by (cases f; cases g) simp_all

lemma int_float_hash_eq: "int_float_eq i f \<Longrightarrow> component_hash (PFloat f) = i"
  by (cases f) auto

lemma component_hash_eq: "py_eq x y \<Longrightarrow> component_hash x = component_hash y"
  by (cases x; cases y) (auto simp: float_hash_eq dest: int_float_hash_eq split: if_splits)

lemma tuple_hash_eq: "list_all2 py_eq xs ys \<Longrightarrow> tuple_hash xs = tuple_hash ys"
  unfolding tuple_hash_def
  by (induction xs ys rule: list_all2_induct) (simp_all add: component_hash_eq)

lemma tuple_hash_respects_eq: "hash_respects_eq tuple_hash"
  unfolding hash_respects_eq_def using tuple_hash_eq by blast

lemma SQLAttribute_eq_components:
  "SQLAttribute_eq a b \<Longrightarrow>
   list_all2 py_eq
     [PStr (SQLAttribute.name a), value a, PBool (has_value a)]
     [PStr (SQLAttribute.name b), value b, PBool (has_value b)]"
  by (simp add: SQLAttribute_eq_def)

text \<open>
  Claim C8. Two attributes are equal exactly when their names, their values and their
  \<open>has_value\<close> flags are equal, and equal attributes have the same hash: the hash is the
  built-in hash of the tuple of these three fields, which gives equal tuples equal hashes.
\<close>

theorem SQLAttribute_eq_hash:
  "(SQLAttribute_eq a b \<longleftrightarrow>
      SQLAttribute.name a = SQLAttribute.name b \<and> py_eq (value a) (value b) \<and>
      has_value a = has_value b) \<and>
   (hash_respects_eq hash \<and> SQLAttribute_eq a b \<longrightarrow>
      SQLAttribute_hash hash a = SQLAttribute_hash hash b)"
proof
  show "SQLAttribute_eq a b \<longleftrightarrow>
      SQLAttribute.name a = SQLAttribute.name b \<and> py_eq (value a) (value b) \<and>
      has_value a = has_value b"
    by (simp add: SQLAttribute_eq_def)
next
  show "hash_respects_eq hash \<and> SQLAttribute_eq a b \<longrightarrow>
      SQLAttribute_hash hash a = SQLAttribute_hash hash b"
  proof
    assume h: "hash_respects_eq hash \<and> SQLAttribute_eq a b"
    then have c: "list_all2 py_eq xs ys \<Longrightarrow> hash xs = hash ys" for xs ys
      by (simp add: hash_respects_eq_def)
    from h have "SQLAttribute_eq a b" ..
    then have "hash [PStr (SQLAttribute.name a), value a, PBool (has_value a)] =
               hash [PStr (SQLAttribute.name b), value b, PBool (has_value b)]"
      by (intro c SQLAttribute_eq_components)
    then show "SQLAttribute_hash hash a = SQLAttribute_hash hash b"
      by (simp add: SQLAttribute_hash_def)
  qed
qed

theorem SQLAttribute_eq_hash_witness:
  "hash_respects_eq tuple_hash \<and>
   SQLAttribute_eq (create_with_value ''unsigned'' (PInt 1))
                   (create_with_value ''unsigned'' (PBool True)) \<and>
   SQLAttribute_hash tuple_hash (create_with_value ''unsigned'' (PInt 1)) =
   SQLAttribute_hash tuple_hash (create_with_value ''unsigned'' (PBool True)) \<and>
   \<not> SQLAttribute_eq (create_with_value ''unsigned'' PNone) (SQLAttribute_init ''unsigned'')"
proof -
  let ?a = "create_with_value ''unsigned'' (PInt 1)"
  let ?b = "create_with_value ''unsigned'' (PBool True)"
  have e: "SQLAttribute_eq ?a ?b"
    by (simp add: SQLAttribute_eq_def create_with_value_def SQLAttribute_init_def)
  have n: "has_value (create_with_value ''unsigned'' PNone) \<noteq>
           has_value (SQLAttribute_init ''unsigned'')"
    by (simp add: create_with_value_def SQLAttribute_init_def)
  from SQLAttribute_eq_hash [of ?a ?b tuple_hash] tuple_hash_respects_eq e
  have h: "SQLAttribute_hash tuple_hash ?a = SQLAttribute_hash tuple_hash ?b"
    by blast
  from SQLAttribute_eq_hash
    [of "create_with_value ''unsigned'' PNone" "SQLAttribute_init ''unsigned''" tuple_hash] n
  have "\<not> SQLAttribute_eq (create_with_value ''unsigned'' PNone) (SQLAttribute_init ''unsigned'')"
    by blast
  with tuple_hash_respects_eq e h show ?thesis
    by blast
qed

section \<open>Equality of data types\<close>

lemma isinstance_subclasses: "isinstance_SQLColumnDataType c"
  by (cases c) simp_all

text \<open>
  Claim C1, as stated, fails: an instance of one subclass and an instance of another, with
  the same attribute set, are equal.
\<close>

theorem SQLColumnDataType_eq_variant_counterexample:
  "cls \<lparr>cls = Subclass ''MySQLInt'', attributes = [SQLAttribute_init ''unsigned'']\<rparr> \<noteq>
   cls \<lparr>cls = Subclass ''MySQLBigInt'', attributes = [SQLAttribute_init ''unsigned'']\<rparr> \<and>
   set_eq [SQLAttribute_init ''unsigned''] [SQLAttribute_init ''unsigned''] \<and>
   SQLColumnDataType_eq
     \<lparr>cls = Subclass ''MySQLInt'', attributes = [SQLAttribute_init ''unsigned'']\<rparr>
     \<lparr>cls = Subclass ''MySQLBigInt'', attributes = [SQLAttribute_init ''unsigned'']\<rparr>"
proof -
  have a: "set_eq [SQLAttribute_init ''unsigned''] [SQLAttribute_init ''unsigned'']"
    by (simp add: set_eq_def SQLAttribute_eq_def SQLAttribute_init_def)
  then have "SQLColumnDataType_eq
     \<lparr>cls = Subclass ''MySQLInt'', attributes = [SQLAttribute_init ''unsigned'']\<rparr>
     \<lparr>cls = Subclass ''MySQLBigInt'', attributes = [SQLAttribute_init ''unsigned'']\<rparr>"
    by (simp add: SQLColumnDataType_eq_def)
  with a show ?thesis by simp
qed

text \<open>
  Claim C1, amended. Two data types are equal exactly when their attribute sets are equal:
  \<open>__eq__\<close> tests that \<open>other\<close> is an instance of \<open>SQLColumnDataType\<close>, which holds
  of every variant, and never compares the variants, so the result is the same whatever the
  classes of the two sides.
\<close>

theorem SQLColumnDataType_eq_attributes_only:
  "SQLColumnDataType_eq a b =
     set_eq (SQLColumnDataType.attributes a) (SQLColumnDataType.attributes b) \<and>
   SQLColumnDataType_eq (a\<lparr>cls := c1\<rparr>) (b\<lparr>cls := c2\<rparr>) = SQLColumnDataType_eq a b"
  by (simp add: SQLColumnDataType_eq_def isinstance_subclasses)

theorem SQLColumnDataType_eq_attributes_only_witness:
  "SQLColumnDataType_eq
     \<lparr>cls = Subclass ''MySQLInt'', attributes = [create_with_value ''length'' (PInt 11)]\<rparr>
     \<lparr>cls = SQLColumnDataType_class, attributes = [create_with_value ''length'' (PInt 11)]\<rparr> \<and>
   \<not> SQLColumnDataType_eq
     \<lparr>cls = Subclass ''MySQLInt'', attributes = [create_with_value ''length'' (PInt 11)]\<rparr>
     \<lparr>cls = Subclass ''MySQLInt'', attributes = [create_with_value ''length'' (PInt 20)]\<rparr>"
proof -
  have a: "set_eq [create_with_value ''length'' (PInt 11)] [create_with_value ''length'' (PInt 11)]"
    by (simp add: set_eq_def SQLAttribute_eq_def create_with_value_def SQLAttribute_init_def)
  have b: "\<not> set_eq [create_with_value ''length'' (PInt 11)] [create_with_value ''length'' (PInt 20)]"
    by (simp add: set_eq_def SQLAttribute_eq_def create_with_value_def SQLAttribute_init_def)
  have "SQLColumnDataType_eq
     \<lparr>cls = Subclass ''MySQLInt'', attributes = [create_with_value ''length'' (PInt 11)]\<rparr>
     \<lparr>cls = SQLColumnDataType_class, attributes = [create_with_value ''length'' (PInt 11)]\<rparr>"
    using a by (simp add: SQLColumnDataType_eq_attributes_only [THEN conjunct1])
  moreover have "\<not> SQLColumnDataType_eq
     \<lparr>cls = Subclass ''MySQLInt'', attributes = [create_with_value ''length'' (PInt 11)]\<rparr>
     \<lparr>cls = Subclass ''MySQLInt'', attributes = [create_with_value ''length'' (PInt 20)]\<rparr>"
    using b by (simp add: SQLColumnDataType_eq_attributes_only [THEN conjunct1])
  ultimately show ?thesis by blast
qed

section \<open>Assertion-style comparison\<close>

text \<open>
  Claim C2. \<open>assert_equal\<close> pairs the columns of two tables, and the attributes of two
  columns, with \<open>izip\<close>, which stops at the end of the shorter side. A table with one
  column against the same table with none, and a column with one attribute against the
  same column with none, pass \<open>assert_equal\<close> without an error although \<open>==\<close> tells
  them apart.
\<close>

theorem assert_equal_passes_on_unequal:
  "SQLTable_assert_equal
     (SQLTable_init ''t'' [SQLColumn_init ''a'' (SQLColumnDataType_init :: string SQLColumnDataType) None])
     (SQLTable_init ''t'' []) = Inr () \<and>
   \<not> SQLTable_eq
     (SQLTable_init ''t'' [SQLColumn_init ''a'' (SQLColumnDataType_init :: string SQLColumnDataType) None])
     (SQLTable_init ''t'' []) \<and>
   SQLColumn_assert_equal
     ((SQLColumn_init ''a'' (SQLColumnDataType_init :: string SQLColumnDataType) None)
        \<lparr>SQLColumn.attributes := [SQLAttribute_init ''unsigned'']\<rparr>)
     (SQLColumn_init ''a'' SQLColumnDataType_init None) = Inr () \<and>
   \<not> SQLColumn_eq
     ((SQLColumn_init ''a'' (SQLColumnDataType_init :: string SQLColumnDataType) None)
        \<lparr>SQLColumn.attributes := [SQLAttribute_init ''unsigned'']\<rparr>)
     (SQLColumn_init ''a'' SQLColumnDataType_init None)"
proof -
  let ?d = "SQLColumnDataType_init :: string SQLColumnDataType"
  let ?c = "SQLColumn_init ''a'' ?d None"
  have t1: "SQLTable_assert_equal (SQLTable_init ''t'' [?c]) (SQLTable_init ''t'' []) = Inr ()"
    by (simp add: SQLTable_assert_equal_def SQLTable_init_def py_assert_def and_then_def
        dict_eq_def)
  have t2: "\<not> SQLTable_eq (SQLTable_init ''t'' [?c]) (SQLTable_init ''t'' [])"
    by (simp add: SQLTable_eq_def SQLTable_init_def)
  have c1: "SQLColumn_assert_equal (?c\<lparr>SQLColumn.attributes := [SQLAttribute_init ''unsigned'']\<rparr>) ?c
              = Inr ()"
    by (simp add: SQLColumn_assert_equal_def SQLColumn_init_def py_assert_def and_then_def
        dict_eq_def SQLColumnDataType_eq_def SQLColumnDataType_init_def set_eq_def)
  have c2: "\<not> SQLColumn_eq (?c\<lparr>SQLColumn.attributes := [SQLAttribute_init ''unsigned'']\<rparr>) ?c"
    by (simp add: SQLColumn_eq_def SQLColumn_init_def set_eq_def)
  from t1 t2 c1 c2 show ?thesis by blast
qed

end
